theory Spec2Isabelle
  imports Complex_Main
begin

section \<open>PowerSHAP explainers: data model\<close>

text \<open>
  The development follows \<^verbatim>\<open>powershap/shap_wrappers/shap_explainer.py\<close>.
  Python objects that the code mutates in place (data frames, estimators) live in an
  explicit store, addressed by their position; a Python reference is such an address.
  The libraries the file calls (NumPy's seeded generator and reductions, scikit-learn's
  \<^verbatim>\<open>train_test_split\<close>, the estimators' \<^verbatim>\<open>fit\<close>, the SHAP
  explainers) are parameters, collected in the record \<open>env\<close>; each may raise.
  The cells of a data frame, the labels and the attribution values are of an arbitrary
  type \<open>'v\<close>: no floating-point arithmetic is interpreted.
\<close>

datatype error =
    AssertionError
  | NotImplementedError
  | UnboundLocalError
  | ValueError
  | IndexError
  | LibraryError string

text \<open>A two-dimensional array, given by its columns.\<close>

type_synonym 'v ndarray = "'v list list"

text \<open>
  A \<^verbatim>\<open>pandas.DataFrame\<close>: the length of its index and its named columns in
  order.
\<close>

record 'v dataframe =
  nrows :: nat
  cols :: "(string \<times> 'v list) list"

definition columns :: "'v dataframe \<Rightarrow> string list" where
  "columns df = map fst (cols df)"

definition df_values :: "'v dataframe \<Rightarrow> 'v ndarray" where
  "df_values df = map snd (cols df)"

text \<open>
  \<^verbatim>\<open>df[name] = vs\<close>: a column of that name is overwritten where it stands, a new
  name is appended; values that do not fit the index are refused.
\<close>

definition setitem :: "'v dataframe \<Rightarrow> string \<Rightarrow> 'v list \<Rightarrow> error + 'v dataframe" where
  "setitem df name vs =
     (if length vs \<noteq> nrows df then Inl ValueError
      else if name \<in> set (columns df)
        then Inr (df\<lparr>cols := map (\<lambda>(c, d). if c = name then (c, vs) else (c, d)) (cols df)\<rparr>)
        else Inr (df\<lparr>cols := cols df @ [(name, vs)]\<rparr>))"

text \<open>
  \<^verbatim>\<open>a[idx]\<close> for an array of positions \<open>idx\<close>: a position past the end raises
  \<^verbatim>\<open>IndexError\<close>.
\<close>

definition take_idx :: "'a list \<Rightarrow> nat list \<Rightarrow> error + 'a list" where
  "take_idx xs idx =
     (if list_all (\<lambda>i. i < length xs) idx then Inr (map (\<lambda>i. xs ! i) idx)
      else Inl IndexError)"

text \<open>\<^verbatim>\<open>df.iloc[idx]\<close>: the rows at the positions \<open>idx\<close>, as a new frame.\<close>

definition iloc :: "'v dataframe \<Rightarrow> nat list \<Rightarrow> error + 'v dataframe" where
  "iloc df idx =
     (if list_all (\<lambda>i. i < nrows df) idx
      then Inr \<lparr>nrows = length idx,
                cols = map (\<lambda>(c, d). (c, map (\<lambda>i. d ! i) idx)) (cols df)\<rparr>
      else Inl IndexError)"

text \<open>
  The frame the run returns, \<^verbatim>\<open>pd.DataFrame(data=shaps, columns=...)\<close>: one row
  per iteration. Rows of unequal length, or of a length other than the number of column
  labels, are refused.
\<close>

record 'v importance_table =
  tcolumns :: "string list"
  trows :: "'v list list"

definition DataFrame :: "'v list list \<Rightarrow> string list \<Rightarrow> error + 'v importance_table" where
  "DataFrame shaps names =
     (if list_all (\<lambda>r. length r = length names) shaps
      then Inr \<lparr>tcolumns = names, trows = shaps\<rparr>
      else Inl ValueError)"

subsection \<open>Estimators\<close>

text \<open>
  The classes the four \<^verbatim>\<open>supports_model\<close> predicates test with
  \<^verbatim>\<open>isinstance\<close>; \<open>Other_class\<close> stands for every other class.
\<close>

datatype model_class =
    CatBoostRegressor | CatBoostClassifier
  | ForestRegressor | ForestClassifier | BaseGradientBoosting
  | LinearClassifierMixin | LinearModel | BaseSGD
  | Keras_Model | Torch_Module
  | Other_class

datatype pval = PNone | PInt int | PStr string

text \<open>
  An estimator object: its class, its constructor parameters, and what \<^verbatim>\<open>fit\<close>
  has learnt (\<open>None\<close> before the first fit).
\<close>

record 'f estimator =
  est_class :: model_class
  est_params :: "string \<rightharpoonup> pval"
  learned :: "'f option"

text \<open>
  \<^verbatim>\<open>sklearn.base.clone\<close>: a new, unfitted estimator with the same parameters.
  CatBoost's \<^verbatim>\<open>copy()\<close> duplicates the object as it is.
\<close>

definition clone :: "'f estimator \<Rightarrow> 'f estimator" where
  "clone m = m\<lparr>learned := None\<rparr>"

definition catboost_copy :: "'f estimator \<Rightarrow> 'f estimator" where
  "catboost_copy m = m"

text \<open>
  scikit-learn's \<^verbatim>\<open>set_params\<close> raises \<^verbatim>\<open>ValueError\<close> for a name that is
  not a parameter of the estimator; CatBoost's stores whatever it is given.
\<close>

definition sklearn_set_params :: "'f estimator \<Rightarrow> string \<Rightarrow> pval \<Rightarrow> error + 'f estimator" where
  "sklearn_set_params m name v =
     (if name \<in> dom (est_params m) then Inr (m\<lparr>est_params := (est_params m)(name \<mapsto> v)\<rparr>)
      else Inl ValueError)"

definition catboost_set_params :: "'f estimator \<Rightarrow> string \<Rightarrow> pval \<Rightarrow> 'f estimator" where
  "catboost_set_params m name v = m\<lparr>est_params := (est_params m)(name \<mapsto> v)\<rparr>"

subsection \<open>The libraries, and the store\<close>

record ('v, 'f) env =
  rs_uniform :: "int \<Rightarrow> nat \<Rightarrow> error + 'v list"
  train_test_split :: "nat \<Rightarrow> real \<Rightarrow> int \<Rightarrow> 'v list option \<Rightarrow> error + (nat list \<times> nat list)"
  model_fit :: "'f estimator \<Rightarrow> 'v ndarray \<Rightarrow> 'v list \<Rightarrow> ('v ndarray \<times> 'v list) option
                  \<Rightarrow> error + 'f estimator"
  tree_shap_values :: "'f estimator \<Rightarrow> 'v ndarray \<Rightarrow> error + 'v ndarray"
  linear_shap_values :: "'f estimator \<Rightarrow> 'v ndarray \<Rightarrow> 'v ndarray \<Rightarrow> error + 'v ndarray"
  np_abs :: "'v \<Rightarrow> 'v"
  np_mean :: "'v list \<Rightarrow> 'v"
  astype_float32 :: "'v \<Rightarrow> 'v"

text \<open>
  The calls a run makes to the libraries, in order; kept in the state so that a
  statement can say which calls happened.
\<close>

datatype 'v event =
    RandomState_uniform int nat
  | Train_test_split nat real int "'v list option"
  | Fit_get_shap int
  | Model_fit nat
  | Explainer_shap_values nat

record ('v, 'f) state =
  frames :: "'v dataframe list"
  models :: "'f estimator list"
  trace :: "'v event list"

definition log_event :: "'v event \<Rightarrow> ('v, 'f) state \<Rightarrow> ('v, 'f) state" where
  "log_event e s = s\<lparr>trace := trace s @ [e]\<rparr>"

section \<open>The explainers\<close>

datatype explainer_kind = Catboost | Ensemble | Linear | DeepLearning

record explainer =
  kind :: explainer_kind
  model :: nat

fun supports_model :: "explainer_kind \<Rightarrow> model_class \<Rightarrow> bool" where
  "supports_model Catboost c = (c = CatBoostRegressor \<or> c = CatBoostClassifier)"
| "supports_model Ensemble c =
     (c = ForestRegressor \<or> c = ForestClassifier \<or> c = BaseGradientBoosting)"
| "supports_model Linear c = (c = LinearClassifierMixin \<or> c = LinearModel \<or> c = BaseSGD)"
| "supports_model DeepLearning c = (c = Keras_Model \<or> c = Torch_Module)"

text \<open>\<^verbatim>\<open>ShapExplainer.__init__\<close>, for the subclass \<open>k\<close> and the model at \<open>m\<close>.\<close>

definition init :: "explainer_kind \<Rightarrow> nat \<Rightarrow> ('v, 'f) state \<Rightarrow> error + explainer" where
  "init k m s =
     (if supports_model k (est_class (models s ! m)) then Inr \<lparr>kind = k, model = m\<rparr>
      else Inl AssertionError)"

subsection \<open>Operations on estimator objects in the store\<close>

text \<open>A new object is placed after the existing ones; its address is returned.\<close>

definition new_model :: "'f estimator \<Rightarrow> ('v, 'f) state \<Rightarrow> nat \<times> ('v, 'f) state" where
  "new_model m s = (length (models s), s\<lparr>models := models s @ [m]\<rparr>)"

text \<open>\<^verbatim>\<open>obj.set_params(name=v)\<close> on the scikit-learn object at \<open>a\<close>, in place.\<close>

definition set_params_at ::
  "nat \<Rightarrow> string \<Rightarrow> pval \<Rightarrow> ('v, 'f) state \<Rightarrow> (error + nat) \<times> ('v, 'f) state" where
  "set_params_at a name v s =
     (case sklearn_set_params (models s ! a) name v of
        Inl e \<Rightarrow> (Inl e, s)
      | Inr m' \<Rightarrow> (Inr a, s\<lparr>models := (models s)[a := m']\<rparr>))"

text \<open>\<^verbatim>\<open>obj.fit(X, Y)\<close> or \<^verbatim>\<open>obj.fit(X, Y, eval_set=...)\<close> on the object at \<open>a\<close>, in place.\<close>

definition fit_at ::
  "('v, 'f) env \<Rightarrow> nat \<Rightarrow> 'v ndarray \<Rightarrow> 'v list \<Rightarrow> ('v ndarray \<times> 'v list) option
     \<Rightarrow> ('v, 'f) state \<Rightarrow> (error + unit) \<times> ('v, 'f) state" where
  "fit_at env a X Y eval_set s =
     (let s1 = log_event (Model_fit a) s
      in case model_fit env (models s1 ! a) X Y eval_set of
           Inl e \<Rightarrow> (Inl e, s1)
         | Inr m' \<Rightarrow> (Inr (), s1\<lparr>models := (models s1)[a := m']\<rparr>))"

text \<open>\<^verbatim>\<open>shap.TreeExplainer(obj).shap_values(X_val)\<close> for the object at \<open>a\<close>.\<close>

definition tree_explainer_at ::
  "('v, 'f) env \<Rightarrow> nat \<Rightarrow> 'v ndarray \<Rightarrow> ('v, 'f) state \<Rightarrow> (error + 'v ndarray) \<times> ('v, 'f) state" where
  "tree_explainer_at env a X_val s =
     (tree_shap_values env (models s ! a) X_val, log_event (Explainer_shap_values a) s)"

text \<open>\<^verbatim>\<open>shap.explainers.Linear(obj, X_train).shap_values(X_val)\<close> for the object at \<open>a\<close>.\<close>

definition linear_explainer_at ::
  "('v, 'f) env \<Rightarrow> nat \<Rightarrow> 'v ndarray \<Rightarrow> 'v ndarray \<Rightarrow> ('v, 'f) state
     \<Rightarrow> (error + 'v ndarray) \<times> ('v, 'f) state" where
  "linear_explainer_at env a X_train X_val s =
     (linear_shap_values env (models s ! a) X_train X_val,
      log_event (Explainer_shap_values a) s)"

subsection \<open>The four \<^verbatim>\<open>_fit_get_shap\<close> methods\<close>

text \<open>
  \<open>tmpl\<close> is \<^verbatim>\<open>self.model\<close>, the address of the model the explainer was built
  around.
\<close>

definition Catboost_fit_get_shap ::
  "('v, 'f) env \<Rightarrow> nat \<Rightarrow> 'v ndarray \<Rightarrow> 'v list \<Rightarrow> 'v ndarray \<Rightarrow> 'v list \<Rightarrow> int
     \<Rightarrow> ('v, 'f) state \<Rightarrow> (error + 'v ndarray) \<times> ('v, 'f) state" where
  "Catboost_fit_get_shap env tmpl X_train Y_train X_val Y_val random_seed s =
     (let (a, s1) = new_model (catboost_copy (models s ! tmpl)) s;
          s2 = s1\<lparr>models :=
                 (models s1)[a := catboost_set_params (models s1 ! a) ''random_seed''
                                    (PInt random_seed)]\<rparr>
      in case fit_at env a X_train Y_train (Some (X_val, Y_val)) s2 of
           (Inl e, s3) \<Rightarrow> (Inl e, s3)
         | (Inr _, s3) \<Rightarrow> tree_explainer_at env a X_val s3)"

definition Ensemble_fit_get_shap ::
  "('v, 'f) env \<Rightarrow> nat \<Rightarrow> 'v ndarray \<Rightarrow> 'v list \<Rightarrow> 'v ndarray \<Rightarrow> 'v list \<Rightarrow> int
     \<Rightarrow> ('v, 'f) state \<Rightarrow> (error + 'v ndarray) \<times> ('v, 'f) state" where
  "Ensemble_fit_get_shap env tmpl X_train Y_train X_val Y_val random_seed s =
     (let (a, s1) = new_model (clone (models s ! tmpl)) s
      in case set_params_at a ''random_state'' (PInt random_seed) s1 of
           (Inl e, s2) \<Rightarrow> (Inl e, s2)
         | (Inr _, s2) \<Rightarrow>
             (case fit_at env a X_train Y_train None s2 of
                (Inl e, s3) \<Rightarrow> (Inl e, s3)
              | (Inr _, s3) \<Rightarrow> tree_explainer_at env a X_val s3))"

text \<open>
  The \<^verbatim>\<open>try\<close> of the linear explainer: when \<^verbatim>\<open>set_params\<close> raises, the
  handler clones the template a second time and goes on with that clone.
\<close>

definition Linear_fit_get_shap ::
  "('v, 'f) env \<Rightarrow> nat \<Rightarrow> 'v ndarray \<Rightarrow> 'v list \<Rightarrow> 'v ndarray \<Rightarrow> 'v list \<Rightarrow> int
     \<Rightarrow> ('v, 'f) state \<Rightarrow> (error + 'v ndarray) \<times> ('v, 'f) state" where
  "Linear_fit_get_shap env tmpl X_train Y_train X_val Y_val random_seed s =
     (let (a1, s1) = new_model (clone (models s ! tmpl)) s;
          (a, s2) = (case set_params_at a1 ''random_state'' (PInt random_seed) s1 of
                       (Inr _, s') \<Rightarrow> (a1, s')
                     | (Inl _, s') \<Rightarrow> new_model (clone (models s' ! tmpl)) s')
      in case fit_at env a X_train Y_train None s2 of
           (Inl e, s3) \<Rightarrow> (Inl e, s3)
         | (Inr _, s3) \<Rightarrow> linear_explainer_at env a X_train X_val s3)"

definition DeepLearning_fit_get_shap ::
  "('v, 'f) env \<Rightarrow> nat \<Rightarrow> 'v ndarray \<Rightarrow> 'v list \<Rightarrow> 'v ndarray \<Rightarrow> 'v list \<Rightarrow> int
     \<Rightarrow> ('v, 'f) state \<Rightarrow> (error + 'v ndarray) \<times> ('v, 'f) state" where
  "DeepLearning_fit_get_shap env tmpl X_train Y_train X_val Y_val random_seed s =
     (Inl NotImplementedError, s)"

text \<open>\<^verbatim>\<open>self._fit_get_shap(...)\<close>: the method of the explainer's own class.\<close>

definition fit_get_shap ::
  "('v, 'f) env \<Rightarrow> explainer \<Rightarrow> 'v ndarray \<Rightarrow> 'v list \<Rightarrow> 'v ndarray \<Rightarrow> 'v list \<Rightarrow> int
     \<Rightarrow> ('v, 'f) state \<Rightarrow> (error + 'v ndarray) \<times> ('v, 'f) state" where
  "fit_get_shap env ex X_train Y_train X_val Y_val random_seed s =
     (case kind ex of
        Catboost \<Rightarrow> Catboost_fit_get_shap env (model ex) X_train Y_train X_val Y_val random_seed s
      | Ensemble \<Rightarrow> Ensemble_fit_get_shap env (model ex) X_train Y_train X_val Y_val random_seed s
      | Linear \<Rightarrow> Linear_fit_get_shap env (model ex) X_train Y_train X_val Y_val random_seed s
      | DeepLearning \<Rightarrow>
          DeepLearning_fit_get_shap env (model ex) X_train Y_train X_val Y_val random_seed s)"

section \<open>\<^verbatim>\<open>ShapExplainer.explain\<close>\<close>

definition random_col_name :: string where
  "random_col_name = ''random_uniform_feature''"

text \<open>\<^verbatim>\<open>np.mean(np.abs(S), axis=0).astype("float32")\<close>: one value per column.\<close>

definition mean_abs :: "('v, 'f) env \<Rightarrow> 'v ndarray \<Rightarrow> 'v list" where
  "mean_abs env S = map (\<lambda>c. astype_float32 env (np_mean env (map (np_abs env) c))) S"

text \<open>The four slices of lines 103 to 106.\<close>

definition slices ::
  "'v dataframe \<Rightarrow> 'v list \<Rightarrow> nat list \<Rightarrow> nat list
     \<Rightarrow> error + ('v dataframe \<times> 'v dataframe \<times> 'v list \<times> 'v list)" where
  "slices X y train_idx val_idx =
     (case iloc X train_idx of Inl e \<Rightarrow> Inl e | Inr X_train \<Rightarrow>
      case iloc X val_idx of Inl e \<Rightarrow> Inl e | Inr X_val \<Rightarrow>
      case take_idx y train_idx of Inl e \<Rightarrow> Inl e | Inr Y_train \<Rightarrow>
      case take_idx y val_idx of Inl e \<Rightarrow> Inl e | Inr Y_val \<Rightarrow>
        Inr (X_train, X_val, Y_train, Y_val))"

text \<open>
  Lines 90 to 106 of the loop body, for the iteration \<open>i\<close>: the random feature is drawn
  and written into the frame at \<open>X\<close> (the copy made before the loop), the rows are split,
  the slices are taken.
\<close>

definition resample ::
  "('v, 'f) env \<Rightarrow> nat \<Rightarrow> 'v list \<Rightarrow> real \<Rightarrow> 'v list option \<Rightarrow> int \<Rightarrow> nat \<Rightarrow> ('v, 'f) state
     \<Rightarrow> (error + ('v dataframe \<times> 'v dataframe \<times> 'v list \<times> 'v list)) \<times> ('v, 'f) state" where
  "resample env X y val_size stratify random_seed_start i s =
     (let n = nrows (frames s ! X);
          s1 = log_event (RandomState_uniform (int i + random_seed_start) n) s
      in case rs_uniform env (int i + random_seed_start) n of
           Inl e \<Rightarrow> (Inl e, s1)
         | Inr random_uniform_feature \<Rightarrow>
      (case setitem (frames s1 ! X) ''random_uniform_feature'' random_uniform_feature of
           Inl e \<Rightarrow> (Inl e, s1)
         | Inr X' \<Rightarrow>
      (let s2 = log_event (Train_test_split (nrows X') val_size (int i) stratify)
                  (s1\<lparr>frames := (frames s1)[X := X']\<rparr>)
       in case train_test_split env (nrows X') val_size (int i) stratify of
            Inl e \<Rightarrow> (Inl e, s2)
          | Inr (train_idx, val_idx) \<Rightarrow> (slices X' y train_idx val_idx, s2))))"

text \<open>
  One pass through the loop body: the value appended to \<^verbatim>\<open>shaps\<close>, and the
  \<^verbatim>\<open>X_train\<close> the pass leaves behind.
\<close>

definition iteration ::
  "('v, 'f) env \<Rightarrow> explainer \<Rightarrow> nat \<Rightarrow> 'v list \<Rightarrow> real \<Rightarrow> 'v list option \<Rightarrow> int \<Rightarrow> nat
     \<Rightarrow> ('v, 'f) state \<Rightarrow> (error + ('v list \<times> 'v dataframe)) \<times> ('v, 'f) state" where
  "iteration env ex X y val_size stratify random_seed_start i s =
     (case resample env X y val_size stratify random_seed_start i s of
        (Inl e, s1) \<Rightarrow> (Inl e, s1)
      | (Inr (X_train, X_val, Y_train, Y_val), s1) \<Rightarrow>
          (case fit_get_shap env ex (df_values X_train) Y_train (df_values X_val) Y_val
                  (int i + random_seed_start)
                  (log_event (Fit_get_shap (int i + random_seed_start)) s1) of
             (Inl e, s2) \<Rightarrow> (Inl e, s2)
           | (Inr Shap_values, s2) \<Rightarrow> (Inr (mean_abs env Shap_values, X_train), s2)))"

text \<open>
  The loop over the remaining values of \<open>i\<close>. \<open>X_train\<close> is \<open>None\<close> as long as the
  local variable is unbound.
\<close>

fun explain_loop ::
  "('v, 'f) env \<Rightarrow> explainer \<Rightarrow> nat \<Rightarrow> 'v list \<Rightarrow> real \<Rightarrow> 'v list option \<Rightarrow> int \<Rightarrow> nat list
     \<Rightarrow> 'v list list \<Rightarrow> 'v dataframe option \<Rightarrow> ('v, 'f) state
     \<Rightarrow> (error + ('v list list \<times> 'v dataframe option)) \<times> ('v, 'f) state" where
  "explain_loop env ex X y val_size stratify random_seed_start [] shaps X_train s =
     (Inr (shaps, X_train), s)"
| "explain_loop env ex X y val_size stratify random_seed_start (i # is) shaps X_train s =
     (case iteration env ex X y val_size stratify random_seed_start i s of
        (Inl e, s') \<Rightarrow> (Inl e, s')
      | (Inr (v, X_train'), s') \<Rightarrow>
          explain_loop env ex X y val_size stratify random_seed_start is (shaps @ [v])
            (Some X_train') s')"

text \<open>
  \<^verbatim>\<open>explain\<close>, called on the explainer \<open>ex\<close> with the frame at address \<open>X\<close>.
  \<^verbatim>\<open>range(loop_its)\<close> is empty for a count that is not positive.
\<close>

definition explain ::
  "('v, 'f) env \<Rightarrow> explainer \<Rightarrow> nat \<Rightarrow> 'v list \<Rightarrow> int \<Rightarrow> real \<Rightarrow> 'v list option \<Rightarrow> int
     \<Rightarrow> ('v, 'f) state \<Rightarrow> (error + 'v importance_table) \<times> ('v, 'f) state" where
  "explain env ex X y loop_its val_size stratify random_seed_start s =
     (if random_col_name \<in> set (columns (frames s ! X)) then (Inl AssertionError, s)
      else
        let X_copy = length (frames s);
            s0 = s\<lparr>frames := frames s @ [frames s ! X]\<rparr>
        in case explain_loop env ex X_copy y val_size stratify random_seed_start
                  [0..<nat loop_its] [] None s0 of
             (Inl e, s') \<Rightarrow> (Inl e, s')
           | (Inr (shaps, X_train), s') \<Rightarrow>
               (case X_train of
                  None \<Rightarrow> (Inl UnboundLocalError, s')
                | Some X_train' \<Rightarrow> (DataFrame shaps (columns X_train'), s')))"

section \<open>A small concrete run\<close>

text \<open>
  Stand-ins for the libraries, used where a statement is evaluated on an input: a
  generator that rejects a negative seed and otherwise returns \<open>n\<close> copies of the seed;
  a split that rejects a fraction outside the open unit interval, fewer than two rows and
  a stratification vector of the wrong length, and otherwise puts the row
  \<open>random_state mod n\<close> into the validation set; a fit that records the number of
  labels; attributions that are the validation features themselves; integer absolute
  value and mean.
\<close>

definition demo_env :: "(int, nat) env" where
  "demo_env =
     \<lparr>rs_uniform = (\<lambda>seed n. if seed < 0 then Inl ValueError else Inr (replicate n seed)),
      train_test_split = (\<lambda>n test_size random_state stratify.
         if \<not> (0 < test_size \<and> test_size < 1) then Inl ValueError
         else if n < 2 then Inl ValueError
         else if (case stratify of None \<Rightarrow> False | Some k \<Rightarrow> length k \<noteq> n)
           then Inl ValueError
         else Inr (filter (\<lambda>j. j \<noteq> nat random_state mod n) [0..<n],
                   [nat random_state mod n])),
      model_fit = (\<lambda>m X Y eval_set. Inr (m\<lparr>learned := Some (length Y)\<rparr>)),
      tree_shap_values = (\<lambda>m X_val. Inr X_val),
      linear_shap_values = (\<lambda>m X_train X_val. Inr X_val),
      np_abs = abs,
      np_mean = (\<lambda>xs. sum_list xs div int (length xs)),
      astype_float32 = id\<rparr>"

definition demo_frame :: "int dataframe" where
  "demo_frame = \<lparr>nrows = 3, cols = [(''a'', [1, - 2, 3]), (''b'', [- 4, 5, - 6])]\<rparr>"

definition demo_frame_reserved :: "int dataframe" where
  "demo_frame_reserved =
     \<lparr>nrows = 3, cols = [(''a'', [1, - 2, 3]), (''random_uniform_feature'', [0, 0, 0])]\<rparr>"

definition demo_model :: "model_class \<Rightarrow> nat estimator" where
  "demo_model c =
     \<lparr>est_class = c, est_params = [''random_state'' \<mapsto> PNone], learned = None\<rparr>"

definition demo_model_seedless :: "nat estimator" where
  "demo_model_seedless =
     \<lparr>est_class = LinearModel, est_params = [''fit_intercept'' \<mapsto> PInt 1], learned = None\<rparr>"

definition demo_state :: "model_class \<Rightarrow> (int, nat) state" where
  "demo_state c =
     \<lparr>frames = [demo_frame, demo_frame_reserved],
      models = [demo_model c, demo_model_seedless],
      trace = []\<rparr>"

definition demo_y :: "int list" where
  "demo_y = [0, 1, 0]"

subsection \<open>A relation used in the proofs\<close>

text \<open>Two states that agree on the frame being resampled and on the template.\<close>

definition agree :: "explainer \<Rightarrow> nat \<Rightarrow> nat \<Rightarrow> ('v, 'f) state \<Rightarrow> ('v, 'f) state \<Rightarrow> bool" where
  "agree ex X X' s t \<longleftrightarrow>
     X < length (frames s) \<and> X' < length (frames t) \<and> frames s ! X = frames t ! X'
     \<and> model ex < length (models s) \<and> model ex < length (models t)
     \<and> models s ! model ex = models t ! model ex"

section \<open>What a call leaves in the store\<close>

lemmas store_defs = new_model_def set_params_at_def fit_at_def tree_explainer_at_def
  linear_explainer_at_def log_event_def sklearn_set_params_def catboost_set_params_def
  catboost_copy_def clone_def

lemmas adapter_defs = fit_get_shap_def Catboost_fit_get_shap_def Ensemble_fit_get_shap_def
  Linear_fit_get_shap_def DeepLearning_fit_get_shap_def

lemmas demo_defs = demo_env_def demo_frame_def demo_frame_reserved_def demo_model_def
  demo_model_seedless_def demo_state_def demo_y_def

lemma take_prefix_length:
  assumes "take (length ys) xs = ys"
  shows "length ys \<le> length xs"
proof -
  have "length (take (length ys) xs) = length ys" using assms by simp
  then show ?thesis by (simp add: min_def split: if_splits)
qed

lemma take_prefix_nth:
  assumes "take (length ys) xs = ys" "a < length ys"
  shows "xs ! a = ys ! a"
  using assms by (metis nth_take)

lemma take_prefix_trans:
  assumes "take (length ys) xs = ys" "take (length zs) ys = zs"
  shows "take (length zs) xs = zs"
proof -
  have "length zs \<le> length ys"
    using assms(2) by (rule take_prefix_length)
  then have "take (length zs) (take (length ys) xs) = take (length zs) xs"
    by (simp add: min_def)
  with assms show ?thesis by simp
qed

subsection \<open>The adapters allocate, and touch nothing that was there\<close>

lemma fit_get_shap_frames:
  "fit_get_shap env ex Xt Yt Xv Yv seed s = (r, s') \<Longrightarrow> frames s' = frames s"
  by (auto simp: adapter_defs store_defs Let_def
      split: explainer_kind.splits sum.splits prod.splits)

lemma fit_get_shap_models_take:
  "fit_get_shap env ex Xt Yt Xv Yv seed s = (r, s')
     \<Longrightarrow> take (length (models s)) (models s') = models s"
  by (auto simp: adapter_defs store_defs Let_def
      split: explainer_kind.splits sum.splits prod.splits)

subsection \<open>The loop body writes to the copy only\<close>

lemma resample_models:
  "resample env X y v st ss i s = (r, s') \<Longrightarrow> models s' = models s"
  by (auto simp: resample_def log_event_def Let_def split: sum.splits prod.splits)

lemma resample_frames_length:
  "resample env X y v st ss i s = (r, s') \<Longrightarrow> length (frames s') = length (frames s)"
  by (auto simp: resample_def log_event_def Let_def split: sum.splits prod.splits)

lemma resample_frames_other:
  "resample env X y v st ss i s = (r, s') \<Longrightarrow> a \<noteq> X \<Longrightarrow> frames s' ! a = frames s ! a"
  by (auto simp: resample_def log_event_def Let_def split: sum.splits prod.splits)

lemma iteration_models_take:
  "iteration env ex X y v st ss i s = (r, s')
     \<Longrightarrow> take (length (models s)) (models s') = models s"
  by (auto simp: iteration_def log_event_def split: sum.splits prod.splits
      dest!: resample_models fit_get_shap_models_take)

lemma iteration_frames_length:
  "iteration env ex X y v st ss i s = (r, s') \<Longrightarrow> length (frames s') = length (frames s)"
  by (auto simp: iteration_def log_event_def split: sum.splits prod.splits
      dest!: resample_frames_length fit_get_shap_frames)

lemma iteration_frames_other:
  "iteration env ex X y v st ss i s = (r, s') \<Longrightarrow> a \<noteq> X \<Longrightarrow> frames s' ! a = frames s ! a"
  by (auto simp: iteration_def log_event_def split: sum.splits prod.splits
      dest!: resample_frames_other[where a=a] fit_get_shap_frames)

lemma explain_loop_models_take:
  "explain_loop env ex X y v st ss js shaps xt s = (r, s')
     \<Longrightarrow> take (length (models s)) (models s') = models s"
proof (induction js arbitrary: shaps xt s)
  case Nil
  then show ?case by simp
next
  case (Cons j js)
  obtain r1 s1 where it: "iteration env ex X y v st ss j s = (r1, s1)"
    by (cases "iteration env ex X y v st ss j s")
  have m1: "take (length (models s)) (models s1) = models s"
    using it by (rule iteration_models_take)
  show ?case
  proof (cases r1)
    case (Inl e)
    with Cons.prems it m1 show ?thesis by simp
  next
    case (Inr p)
    obtain w d where p: "p = (w, d)" by (cases p)
    from Cons.prems it Inr p
    have "explain_loop env ex X y v st ss js (shaps @ [w]) (Some d) s1 = (r, s')" by simp
    then have "take (length (models s1)) (models s') = models s1" by (rule Cons.IH)
    then show ?thesis using m1 by (rule take_prefix_trans)
  qed
qed

lemma explain_loop_frames:
  "explain_loop env ex X y v st ss js shaps xt s = (r, s')
     \<Longrightarrow> length (frames s') = length (frames s)
         \<and> (\<forall>a. a \<noteq> X \<longrightarrow> frames s' ! a = frames s ! a)"
proof (induction js arbitrary: shaps xt s)
  case Nil
  then show ?case by simp
next
  case (Cons j js)
  obtain r1 s1 where it: "iteration env ex X y v st ss j s = (r1, s1)"
    by (cases "iteration env ex X y v st ss j s")
  have f1: "length (frames s1) = length (frames s)"
    "\<And>a. a \<noteq> X \<Longrightarrow> frames s1 ! a = frames s ! a"
    using it by (auto dest: iteration_frames_length iteration_frames_other)
  show ?case
  proof (cases r1)
    case (Inl e)
    with Cons.prems it f1 show ?thesis by simp
  next
    case (Inr p)
    obtain w d where p: "p = (w, d)" by (cases p)
    from Cons.prems it Inr p
    have "explain_loop env ex X y v st ss js (shaps @ [w]) (Some d) s1 = (r, s')" by simp
    from Cons.IH[OF this] f1 show ?thesis by simp
  qed
qed

lemma explain_frames_old:
  assumes "explain env ex X y loop_its v st ss s = (r, s')" and "a < length (frames s)"
  shows "frames s' ! a = frames s ! a"
proof (cases "random_col_name \<in> set (columns (frames s ! X))")
  case True
  with assms show ?thesis by (simp add: explain_def)
next
  case False
  let ?s0 = "s\<lparr>frames := frames s @ [frames s ! X]\<rparr>"
  obtain r1 s1 where lp:
    "explain_loop env ex (length (frames s)) y v st ss [0..<nat loop_its] [] None ?s0 = (r1, s1)"
    by (cases "explain_loop env ex (length (frames s)) y v st ss [0..<nat loop_its] [] None ?s0")
  have "frames s1 ! a = frames ?s0 ! a"
    using explain_loop_frames[OF lp] assms(2) by simp
  then have "frames s1 ! a = frames s ! a"
    using assms(2) by (simp add: nth_append)
  moreover have "s' = s1"
    using assms(1) False lp
    by (auto simp: explain_def Let_def split: sum.splits prod.splits option.splits)
  ultimately show ?thesis by simp
qed

lemma explain_models_take:
  assumes "explain env ex X y loop_its v st ss s = (r, s')"
  shows "take (length (models s)) (models s') = models s"
proof (cases "random_col_name \<in> set (columns (frames s ! X))")
  case True
  with assms show ?thesis by (simp add: explain_def)
next
  case False
  let ?s0 = "s\<lparr>frames := frames s @ [frames s ! X]\<rparr>"
  obtain r1 s1 where lp:
    "explain_loop env ex (length (frames s)) y v st ss [0..<nat loop_its] [] None ?s0 = (r1, s1)"
    by (cases "explain_loop env ex (length (frames s)) y v st ss [0..<nat loop_its] [] None ?s0")
  have "take (length (models ?s0)) (models s1) = models ?s0"
    using lp by (rule explain_loop_models_take)
  moreover have "s' = s1"
    using assms(1) False lp
    by (auto simp: explain_def Let_def split: sum.splits prod.splits option.splits)
  ultimately show ?thesis by simp
qed

section \<open>The reserved column name\<close>

text \<open>
  C4. When the frame passed to \<^verbatim>\<open>explain\<close> already has a column named
  \<^verbatim>\<open>random_uniform_feature\<close>, the call fails on its assertion and leaves the state
  as it was: the frame is not copied, nothing is drawn or split, and no explainer method
  and no \<^verbatim>\<open>fit\<close> is called (the trace gains no entry).
\<close>

theorem explain_reserved_name_fails:
  assumes "random_col_name \<in> set (columns (frames s ! X))"
  shows "explain env ex X y loop_its val_size stratify random_seed_start s
           = (Inl AssertionError, s)"
  using assms by (simp add: explain_def)

theorem explain_reserved_name_fails_witness:
  "random_col_name \<in> set (columns (frames (demo_state CatBoostClassifier) ! 1))
   \<and> explain demo_env \<lparr>kind = Catboost, model = 0\<rparr> 1 demo_y 5 (3 / 10) None 0
         (demo_state CatBoostClassifier)
       = (Inl AssertionError, demo_state CatBoostClassifier)
   \<and> trace (demo_state CatBoostClassifier) = []"
proof -
  have h: "random_col_name \<in> set (columns (frames (demo_state CatBoostClassifier) ! 1))"
    by (simp add: demo_defs random_col_name_def columns_def)
  show ?thesis
    using h explain_reserved_name_fails[OF h, of demo_env "\<lparr>kind = Catboost, model = 0\<rparr>"
        demo_y 5 "3 / 10" None 0]
    by (simp add: demo_state_def)
qed

section \<open>The caller's frame\<close>

text \<open>
  C5. A call of \<^verbatim>\<open>explain\<close> on the frame at \<open>X\<close> leaves that frame as it was,
  whether the call returns a table or raises: the random column is written to a copy.
  So after a call that returns, the caller's frame has no column named
  \<^verbatim>\<open>random_uniform_feature\<close>, and after a call that raises it has one only if it
  had one before.
\<close>

theorem explain_keeps_caller_frame:
  assumes "X < length (frames s)"
  shows "frames (snd (explain env ex X y loop_its val_size stratify random_seed_start s)) ! X
           = frames s ! X
       \<and> (isl (fst (explain env ex X y loop_its val_size stratify random_seed_start s))
          \<or> random_col_name \<notin> set (columns
               (frames (snd (explain env ex X y loop_its val_size stratify random_seed_start s))
                  ! X)))
       \<and> (random_col_name \<in> set (columns (frames s ! X))
          \<or> random_col_name \<notin> set (columns
               (frames (snd (explain env ex X y loop_its val_size stratify random_seed_start s))
                  ! X)))"
proof -
  let ?e = "explain env ex X y loop_its val_size stratify random_seed_start s"
  have same: "frames (snd ?e) ! X = frames s ! X"
    using explain_frames_old[OF prod.collapse[symmetric] assms] .
  have "isl (fst ?e)" if "random_col_name \<in> set (columns (frames s ! X))"
    using that by (simp add: explain_def)
  with same show ?thesis by auto
qed

theorem explain_keeps_caller_frame_witness:
  "0 < length (frames (demo_state CatBoostClassifier))
   \<and> frames (snd (explain demo_env \<lparr>kind = Catboost, model = 0\<rparr> 0 demo_y 2 (3 / 10) None 0
        (demo_state CatBoostClassifier))) ! 0 = demo_frame
   \<and> columns demo_frame = [''a'', ''b'']"
proof -
  have h: "0 < length (frames (demo_state CatBoostClassifier))"
    by (simp add: demo_state_def)
  show ?thesis
    using h explain_keeps_caller_frame[OF h, of demo_env "\<lparr>kind = Catboost, model = 0\<rparr>"
        demo_y 2 "3 / 10" None 0]
    by (simp add: demo_state_def demo_frame_def columns_def)
qed

section \<open>The deep-learning explainer\<close>

text \<open>
  C9. \<^verbatim>\<open>DeepLearningExplainer._fit_get_shap\<close> raises
  \<^verbatim>\<open>NotImplementedError\<close> on every call, whatever its arguments. The state is left
  as it was: no object is created or fitted and no attribution is asked for. The error
  is none of those a failed precondition or bad data raise here
  (\<^verbatim>\<open>AssertionError\<close>, \<^verbatim>\<open>ValueError\<close>, \<^verbatim>\<open>IndexError\<close>,
  \<^verbatim>\<open>UnboundLocalError\<close>).
\<close>

theorem DeepLearning_fit_get_shap_not_implemented:
  "fit_get_shap env \<lparr>kind = DeepLearning, model = m\<rparr> X_train Y_train X_val Y_val
       random_seed s
     = (Inl NotImplementedError, s)
   \<and> NotImplementedError \<notin> {AssertionError, ValueError, IndexError, UnboundLocalError}"
  by (simp add: fit_get_shap_def DeepLearning_fit_get_shap_def)

theorem DeepLearning_fit_get_shap_not_implemented_witness:
  "fit_get_shap demo_env \<lparr>kind = DeepLearning, model = 0\<rparr> [[1, 2]] [0, 1] [[3]] [1] 7
       (demo_state Torch_Module)
     = (Inl NotImplementedError, demo_state Torch_Module)"
  using DeepLearning_fit_get_shap_not_implemented[of demo_env 0 "[[1, 2]]" "[0, 1]"
      "[[3]]" "[1]" 7 "demo_state Torch_Module"]
  by simp

section \<open>The template model\<close>

subsection \<open>What a successful call has done\<close>



lemma Linear_fit_get_shap_seeded:
  assumes "tmpl < length (models s)"
    and "''random_state'' \<in> dom (est_params (models s ! tmpl))"
  shows "fst (Linear_fit_get_shap env tmpl Xt Yt Xv Yv seed s) =
           (case model_fit env ((clone (models s ! tmpl))
                   \<lparr>est_params := (est_params (models s ! tmpl))(''random_state'' \<mapsto> PInt seed)\<rparr>)
                   Xt Yt None of
              Inl e \<Rightarrow> Inl e | Inr m' \<Rightarrow> linear_shap_values env m' Xt Xv)"
    and "\<exists>evs. trace (snd (Linear_fit_get_shap env tmpl Xt Yt Xv Yv seed s))
           = trace s @ Model_fit (length (models s)) # evs"
    and "length (models (snd (Linear_fit_get_shap env tmpl Xt Yt Xv Yv seed s)))
           = Suc (length (models s))"
  using assms
  by (auto simp: Linear_fit_get_shap_def store_defs Let_def nth_append
      split: sum.splits prod.splits if_splits)

lemma Linear_fit_get_shap_seedless:
  assumes "tmpl < length (models s)"
    and "''random_state'' \<notin> dom (est_params (models s ! tmpl))"
  shows "fst (Linear_fit_get_shap env tmpl Xt Yt Xv Yv seed s) =
           (case model_fit env (clone (models s ! tmpl)) Xt Yt None of
              Inl e \<Rightarrow> Inl e | Inr m' \<Rightarrow> linear_shap_values env m' Xt Xv)"
    and "\<exists>evs. trace (snd (Linear_fit_get_shap env tmpl Xt Yt Xv Yv seed s))
           = trace s @ Model_fit (Suc (length (models s))) # evs"
    and "length (models (snd (Linear_fit_get_shap env tmpl Xt Yt Xv Yv seed s)))
           = Suc (Suc (length (models s)))"
  using assms
  by (auto simp: Linear_fit_get_shap_def store_defs Let_def nth_append
      split: sum.splits prod.splits if_splits)





section \<open>The linear explainer's seed\<close>

text \<open>
  C10. \<^verbatim>\<open>LinearExplainer._fit_get_shap\<close>: when the template has a parameter
  \<^verbatim>\<open>random_state\<close>, the object that is fitted is a clone of the template with
  that parameter set to the seed; when it has none, \<^verbatim>\<open>set_params\<close> raises, the
  handler takes a second clone, and the object that is fitted is a clone with the
  template's own parameters. In both cases \<^verbatim>\<open>fit\<close> is called (on the first new
  object, respectively on the second), and the call returns what the fit and the linear
  explainer return: the missing parameter is no error.
\<close>

theorem Linear_fit_get_shap_seed_fallback:
  assumes "model ex < length (models s)" and "kind ex = Linear"
  shows "(''random_state'' \<in> dom (est_params (models s ! model ex)) \<longrightarrow>
            fst (fit_get_shap env ex X_train Y_train X_val Y_val random_seed s)
              = (case model_fit env ((clone (models s ! model ex))
                        \<lparr>est_params := (est_params (models s ! model ex))
                                          (''random_state'' \<mapsto> PInt random_seed)\<rparr>)
                        X_train Y_train None of
                   Inl e \<Rightarrow> Inl e
                 | Inr m' \<Rightarrow> linear_shap_values env m' X_train X_val)
          \<and> (\<exists>evs. trace (snd (fit_get_shap env ex X_train Y_train X_val Y_val random_seed s))
                 = trace s @ Model_fit (length (models s)) # evs))
       \<and> (''random_state'' \<notin> dom (est_params (models s ! model ex)) \<longrightarrow>
            fst (fit_get_shap env ex X_train Y_train X_val Y_val random_seed s)
              = (case model_fit env (clone (models s ! model ex)) X_train Y_train None of
                   Inl e \<Rightarrow> Inl e
                 | Inr m' \<Rightarrow> linear_shap_values env m' X_train X_val)
          \<and> (\<exists>evs. trace (snd (fit_get_shap env ex X_train Y_train X_val Y_val random_seed s))
                 = trace s @ Model_fit (Suc (length (models s))) # evs))"
  using assms Linear_fit_get_shap_seeded[of "model ex" s env X_train Y_train X_val Y_val random_seed]
    Linear_fit_get_shap_seedless[of "model ex" s env X_train Y_train X_val Y_val random_seed]
  by (simp add: fit_get_shap_def)

theorem Linear_fit_get_shap_seed_fallback_witness:
  "model \<lparr>kind = Linear, model = 1\<rparr> < length (models (demo_state LinearModel))
   \<and> kind \<lparr>kind = Linear, model = 1\<rparr> = Linear
   \<and> ''random_state'' \<notin> dom (est_params (models (demo_state LinearModel) ! 1))
   \<and> fst (fit_get_shap demo_env \<lparr>kind = Linear, model = 1\<rparr> [[1, 2]] [0, 1] [[3]] [1] 7
        (demo_state LinearModel)) = Inr [[3]]
   \<and> ''random_state'' \<in> dom (est_params (models (demo_state LinearModel) ! 0))
   \<and> fst (fit_get_shap demo_env \<lparr>kind = Linear, model = 0\<rparr> [[1, 2]] [0, 1] [[3]] [1] 7
        (demo_state LinearModel)) = Inr [[3]]"
proof -
  have h1: "model \<lparr>kind = Linear, model = 1\<rparr> < length (models (demo_state LinearModel))"
    and h0: "model \<lparr>kind = Linear, model = 0\<rparr> < length (models (demo_state LinearModel))"
    and k1: "kind \<lparr>kind = Linear, model = 1\<rparr> = Linear"
    and k0: "kind \<lparr>kind = Linear, model = 0\<rparr> = Linear"
    by (simp_all add: demo_state_def)
  show ?thesis
    using h1 Linear_fit_get_shap_seed_fallback[OF h1 k1, of demo_env "[[1, 2]]" "[0, 1]" "[[3]]" "[1]" 7]
      Linear_fit_get_shap_seed_fallback[OF h0 k0, of demo_env "[[1, 2]]" "[0, 1]" "[[3]]" "[1]" 7]
    by (simp add: demo_defs)
qed

section \<open>Calling \<^verbatim>\<open>explain\<close> twice\<close>

subsection \<open>The result is a function of the frame and of the template\<close>

lemma fit_get_shap_value:
  assumes "model ex < length (models s)"
  shows "fst (fit_get_shap env ex Xt Yt Xv Yv seed s) =
    (case kind ex of
       Catboost \<Rightarrow>
         (case model_fit env (catboost_set_params (catboost_copy (models s ! model ex))
                  ''random_seed'' (PInt seed)) Xt Yt (Some (Xv, Yv)) of
            Inl e \<Rightarrow> Inl e | Inr m' \<Rightarrow> tree_shap_values env m' Xv)
     | Ensemble \<Rightarrow>
         (case sklearn_set_params (clone (models s ! model ex)) ''random_state'' (PInt seed) of
            Inl e \<Rightarrow> Inl e
          | Inr m \<Rightarrow> (case model_fit env m Xt Yt None of
                        Inl e \<Rightarrow> Inl e | Inr m' \<Rightarrow> tree_shap_values env m' Xv))
     | Linear \<Rightarrow>
         (case model_fit env
                 (case sklearn_set_params (clone (models s ! model ex)) ''random_state''
                         (PInt seed) of
                    Inl e \<Rightarrow> clone (models s ! model ex) | Inr m \<Rightarrow> m) Xt Yt None of
            Inl e \<Rightarrow> Inl e | Inr m' \<Rightarrow> linear_shap_values env m' Xt Xv)
     | DeepLearning \<Rightarrow> Inl NotImplementedError)"
  using assms
  by (auto simp: adapter_defs store_defs Let_def nth_append
      split: explainer_kind.splits sum.splits prod.splits)

lemma fit_get_shap_value_rel:
  assumes "model ex < length (models s)" "model ex < length (models t)"
    and "models s ! model ex = models t ! model ex"
  shows "fst (fit_get_shap env ex Xt Yt Xv Yv seed s)
       = fst (fit_get_shap env ex Xt Yt Xv Yv seed t)"
  unfolding fit_get_shap_value[OF assms(1)] fit_get_shap_value[OF assms(2)] assms(3)
  by (rule refl)

lemma resample_value_rel:
  assumes "frames s ! X = frames t ! X'"
  shows "fst (resample env X y v st ss i s) = fst (resample env X' y v st ss i t)"
  using assms
  by (auto simp: resample_def log_event_def Let_def split: sum.splits prod.splits)

lemma resample_frame_rel:
  assumes "frames s ! X = frames t ! X'" "X < length (frames s)" "X' < length (frames t)"
  shows "frames (snd (resample env X y v st ss i s)) ! X
       = frames (snd (resample env X' y v st ss i t)) ! X'"
  using assms
  by (auto simp: resample_def log_event_def Let_def split: sum.splits prod.splits)

lemma iteration_rel:
  assumes "agree ex X X' s t"
    and "iteration env ex X y v st ss i s = (r, s')"
    and "iteration env ex X' y v st ss i t = (q, t')"
  shows "r = q \<and> agree ex X X' s' t'"
proof -
  obtain r1 s1 where rs: "resample env X y v st ss i s = (r1, s1)"
    by (cases "resample env X y v st ss i s")
  obtain q1 t1 where rt0: "resample env X' y v st ss i t = (q1, t1)"
    by (cases "resample env X' y v st ss i t")
  from assms(1) have fr: "frames s ! X = frames t ! X'"
    and bx: "X < length (frames s)" "X' < length (frames t)"
    and bm: "model ex < length (models s)" "model ex < length (models t)"
    and mm: "models s ! model ex = models t ! model ex"
    by (simp_all add: agree_def)
  have "r1 = q1"
    using resample_value_rel[OF fr, of env y v st ss i] rs rt0 by simp
  with rt0 have rt: "resample env X' y v st ss i t = (r1, t1)" by simp
  have f1: "frames s1 ! X = frames t1 ! X'"
    using resample_frame_rel[OF fr bx, of env y v st ss i] rs rt by simp
  have l1: "length (frames s1) = length (frames s)" "length (frames t1) = length (frames t)"
    using rs rt by (auto dest: resample_frames_length)
  have m1: "models s1 = models s" "models t1 = models t"
    using rs rt by (auto dest: resample_models)
  have ag1: "agree ex X X' s1 t1"
    using f1 l1 m1 bx bm mm by (simp add: agree_def)
  show ?thesis
  proof (cases r1)
    case (Inl e)
    with assms(2,3) rs rt ag1 show ?thesis by (auto simp: iteration_def)
  next
    case (Inr p)
    obtain Xt Xv Yt Yv where p: "p = (Xt, Xv, Yt, Yv)" by (cases p) auto
    let ?s2 = "log_event (Fit_get_shap (int i + ss)) s1"
    let ?t2 = "log_event (Fit_get_shap (int i + ss)) t1"
    obtain r2 s2 where fs:
      "fit_get_shap env ex (df_values Xt) Yt (df_values Xv) Yv (int i + ss) ?s2 = (r2, s2)"
      by (cases "fit_get_shap env ex (df_values Xt) Yt (df_values Xv) Yv (int i + ss) ?s2")
    obtain q2 t2 where ft:
      "fit_get_shap env ex (df_values Xt) Yt (df_values Xv) Yv (int i + ss) ?t2 = (q2, t2)"
      by (cases "fit_get_shap env ex (df_values Xt) Yt (df_values Xv) Yv (int i + ss) ?t2")
    have b2: "model ex < length (models ?s2)" "model ex < length (models ?t2)"
      "models ?s2 ! model ex = models ?t2 ! model ex"
      using m1 bm mm by (simp_all add: log_event_def)
    have eq2: "r2 = q2"
      using fit_get_shap_value_rel[OF b2, of env "df_values Xt" Yt "df_values Xv" Yv "int i + ss"]
        fs ft by simp
    have fr2: "frames s2 = frames s1" "frames t2 = frames t1"
      using fs ft by (auto dest: fit_get_shap_frames simp: log_event_def)
    have tk: "take (length (models s1)) (models s2) = models s1"
      "take (length (models t1)) (models t2) = models t1"
      using fs ft by (auto dest!: fit_get_shap_models_take simp: log_event_def)
    have mm2: "models s2 ! model ex = models s1 ! model ex"
      "models t2 ! model ex = models t1 ! model ex"
      using tk bm m1 by (auto intro: take_prefix_nth)
    have ln2: "length (models s1) \<le> length (models s2)" "length (models t1) \<le> length (models t2)"
      using tk by (auto intro: take_prefix_length)
    have ag2: "agree ex X X' s2 t2"
      using ag1 fr2 mm2 ln2 by (auto simp: agree_def)
    have "iteration env ex X y v st ss i s =
            (case r2 of Inl e \<Rightarrow> (Inl e, s2) | Inr S \<Rightarrow> (Inr (mean_abs env S, Xt), s2))"
      using rs Inr p fs by (simp add: iteration_def split: sum.splits)
    moreover have "iteration env ex X' y v st ss i t =
            (case q2 of Inl e \<Rightarrow> (Inl e, t2) | Inr S \<Rightarrow> (Inr (mean_abs env S, Xt), t2))"
      using rt Inr p ft by (simp add: iteration_def split: sum.splits)
    ultimately show ?thesis
      using assms(2,3) eq2 ag2 by (auto split: sum.splits)
  qed
qed

lemma explain_loop_rel:
  assumes "agree ex X X' s t"
  shows "fst (explain_loop env ex X y v st ss js shaps xt s)
       = fst (explain_loop env ex X' y v st ss js shaps xt t)"
  using assms
proof (induction js arbitrary: shaps xt s t)
  case Nil
  then show ?case by simp
next
  case (Cons j js)
  obtain r s' where its: "iteration env ex X y v st ss j s = (r, s')"
    by (cases "iteration env ex X y v st ss j s")
  obtain q t' where it: "iteration env ex X' y v st ss j t = (q, t')"
    by (cases "iteration env ex X' y v st ss j t")
  from iteration_rel[OF Cons.prems its it] have "r = q" and ag: "agree ex X X' s' t'"
    by simp_all
  with it have it': "iteration env ex X' y v st ss j t = (r, t')" by simp
  show ?case
  proof (cases r)
    case (Inl e)
    with its it' show ?thesis by simp
  next
    case (Inr p)
    obtain w d where p: "p = (w, d)" by (cases p)
    from Cons.IH[OF ag, of "shaps @ [w]" "Some d"] its it' Inr p show ?thesis by simp
  qed
qed

lemma explain_fst:
  "fst (explain env ex X y loop_its v st ss s) =
     (if random_col_name \<in> set (columns (frames s ! X)) then Inl AssertionError
      else case fst (explain_loop env ex (length (frames s)) y v st ss [0..<nat loop_its] []
                       None (s\<lparr>frames := frames s @ [frames s ! X]\<rparr>)) of
             Inl e \<Rightarrow> Inl e
           | Inr (shaps, xt) \<Rightarrow>
               (case xt of None \<Rightarrow> Inl UnboundLocalError
                | Some d \<Rightarrow> DataFrame shaps (columns d)))"
  by (simp add: explain_def Let_def split: sum.splits prod.splits option.splits)

lemma explain_snd:
  "snd (explain env ex X y loop_its v st ss s) =
     (if random_col_name \<in> set (columns (frames s ! X)) then s
      else snd (explain_loop env ex (length (frames s)) y v st ss [0..<nat loop_its] []
                  None (s\<lparr>frames := frames s @ [frames s ! X]\<rparr>)))"
  by (simp add: explain_def Let_def split: sum.splits prod.splits option.splits)

lemma explain_value_rel:
  assumes "agree ex X X s t"
  shows "fst (explain env ex X y loop_its v st ss s) = fst (explain env ex X y loop_its v st ss t)"
proof -
  from assms have fr: "frames s ! X = frames t ! X"
    and bm: "model ex < length (models s)" "model ex < length (models t)"
    and mm: "models s ! model ex = models t ! model ex"
    by (simp_all add: agree_def)
  have "agree ex (length (frames s)) (length (frames t))
          (s\<lparr>frames := frames s @ [frames t ! X]\<rparr>) (t\<lparr>frames := frames t @ [frames t ! X]\<rparr>)"
    using bm mm by (simp add: agree_def)
  then have L:
    "fst (explain_loop env ex (length (frames s)) y v st ss [0..<nat loop_its] [] None
            (s\<lparr>frames := frames s @ [frames t ! X]\<rparr>))
     = fst (explain_loop env ex (length (frames t)) y v st ss [0..<nat loop_its] [] None
            (t\<lparr>frames := frames t @ [frames t ! X]\<rparr>))"
    by (rule explain_loop_rel)
  show ?thesis
    unfolding explain_fst fr L by (rule refl)
qed

lemma explain_frames_length:
  assumes "explain env ex X y loop_its v st ss s = (r, s')"
  shows "length (frames s) \<le> length (frames s')"
proof (cases "random_col_name \<in> set (columns (frames s ! X))")
  case True
  with assms show ?thesis by (simp add: explain_def)
next
  case False
  let ?s0 = "s\<lparr>frames := frames s @ [frames s ! X]\<rparr>"
  obtain r1 s1 where lp:
    "explain_loop env ex (length (frames s)) y v st ss [0..<nat loop_its] [] None ?s0 = (r1, s1)"
    by (cases "explain_loop env ex (length (frames s)) y v st ss [0..<nat loop_its] [] None ?s0")
  have "length (frames s1) = length (frames ?s0)"
    using explain_loop_frames[OF lp] by simp
  moreover have "s' = s1"
    using assms(1) False lp
    by (auto simp: explain_def Let_def split: sum.splits prod.splits option.splits)
  ultimately show ?thesis by simp
qed

text \<open>
  C7. A second call of \<^verbatim>\<open>explain\<close> with the same arguments, made in the state
  the first call has left (with the copies, the fitted clones and the trace of the first
  call in the store), returns what the first call returned: the same table, or the same
  error. The libraries are functions of their arguments here, the seed among them; the
  statement is that \<^verbatim>\<open>explain\<close> itself carries nothing from one call to the
  next, since it reads only the caller's frame and the template and changes neither.
\<close>

theorem explain_twice_same_table:
  assumes "X < length (frames s)" and "model ex < length (models s)"
  shows "fst (explain env ex X y loop_its val_size stratify random_seed_start
               (snd (explain env ex X y loop_its val_size stratify random_seed_start s)))
       = fst (explain env ex X y loop_its val_size stratify random_seed_start s)"
proof -
  obtain r s' where e: "explain env ex X y loop_its val_size stratify random_seed_start s = (r, s')"
    by (cases "explain env ex X y loop_its val_size stratify random_seed_start s")
  have f: "frames s' ! X = frames s ! X"
    using e assms(1) by (rule explain_frames_old)
  have tk: "take (length (models s)) (models s') = models s"
    using e by (rule explain_models_take)
  have m: "models s' ! model ex = models s ! model ex"
    using tk assms(2) by (rule take_prefix_nth)
  have lm: "length (models s) \<le> length (models s')"
    using tk by (rule take_prefix_length)
  have lf: "X < length (frames s')"
    using explain_frames_length[OF e] assms(1) by simp
  have "agree ex X X s' s"
    using f m lm lf assms by (simp add: agree_def)
  from explain_value_rel[OF this, of env y loop_its val_size stratify random_seed_start] e
  show ?thesis by simp
qed

theorem explain_twice_same_table_witness:
  "0 < length (frames (demo_state CatBoostClassifier))
   \<and> model \<lparr>kind = Catboost, model = 0\<rparr> < length (models (demo_state CatBoostClassifier))
   \<and> fst (explain demo_env \<lparr>kind = Catboost, model = 0\<rparr> 0 demo_y 2 (3 / 10) None 5
        (snd (explain demo_env \<lparr>kind = Catboost, model = 0\<rparr> 0 demo_y 2 (3 / 10) None 5
           (demo_state CatBoostClassifier))))
     = fst (explain demo_env \<lparr>kind = Catboost, model = 0\<rparr> 0 demo_y 2 (3 / 10) None 5
        (demo_state CatBoostClassifier))"
proof -
  have bx: "0 < length (frames (demo_state CatBoostClassifier))"
    and bm: "model \<lparr>kind = Catboost, model = 0\<rparr> < length (models (demo_state CatBoostClassifier))"
    by (simp_all add: demo_defs)
  from bx bm explain_twice_same_table[OF bx bm, of demo_env demo_y 2 "3 / 10" None 5]
  show ?thesis by simp
qed

section \<open>The shape of the table\<close>

subsection \<open>An iteration whose library calls succeed\<close>










section \<open>The iteration count and the validation fraction\<close>

subsection \<open>No iteration, and a split that refuses\<close>

lemma explain_no_iterations:
  assumes "loop_its \<le> 0"
  shows "explain env ex X y loop_its v st ss s =
           (if random_col_name \<in> set (columns (frames s ! X)) then (Inl AssertionError, s)
            else (Inl UnboundLocalError, s\<lparr>frames := frames s @ [frames s ! X]\<rparr>))"
  using assms by (simp add: explain_def Let_def)

lemma resample_split_rejects:
  assumes "rs_uniform env (int i + ss) (nrows (frames s ! X)) = Inr u"
    and "length u = nrows (frames s ! X)"
    and "train_test_split env (nrows (frames s ! X)) v (int i) st = Inl e"
  shows "fst (resample env X y v st ss i s) = Inl e"
    and "trace (snd (resample env X y v st ss i s))
           = trace s @ [RandomState_uniform (int i + ss) (nrows (frames s ! X)),
                        Train_test_split (nrows (frames s ! X)) v (int i) st]"
    and "models (snd (resample env X y v st ss i s)) = models s"
  using assms
  by (auto simp: resample_def setitem_def log_event_def Let_def split: sum.splits)

lemma explain_first_split_rejects:
  assumes its: "0 < loop_its"
    and nc: "random_col_name \<notin> set (columns (frames s ! X))"
    and dr: "rs_uniform env ss (nrows (frames s ! X)) = Inr u" "length u = nrows (frames s ! X)"
    and sp: "train_test_split env (nrows (frames s ! X)) v 0 st = Inl e"
  shows "fst (explain env ex X y loop_its v st ss s) = Inl e"
    and "trace (snd (explain env ex X y loop_its v st ss s))
           = trace s @ [RandomState_uniform ss (nrows (frames s ! X)),
                        Train_test_split (nrows (frames s ! X)) v 0 st]"
    and "models (snd (explain env ex X y loop_its v st ss s)) = models s"
proof -
  let ?s0 = "s\<lparr>frames := frames s @ [frames s ! X]\<rparr>"
  let ?Xc = "length (frames s)"
  obtain k where k: "nat loop_its = Suc k" using its by (cases "nat loop_its") auto
  have up: "[0..<nat loop_its] = 0 # [1..<Suc k]" using k by (simp add: upt_conv_Cons)
  have f0: "frames ?s0 ! ?Xc = frames s ! X" by simp
  have dr0: "rs_uniform env (int 0 + ss) (nrows (frames ?s0 ! ?Xc)) = Inr u"
    "length u = nrows (frames ?s0 ! ?Xc)"
    "train_test_split env (nrows (frames ?s0 ! ?Xc)) v (int 0) st = Inl e"
    using dr sp by simp_all
  obtain r1 s1 where rs: "resample env ?Xc y v st ss 0 ?s0 = (r1, s1)"
    by (cases "resample env ?Xc y v st ss 0 ?s0")
  have r1: "r1 = Inl e"
    and t1: "trace s1 = trace s @ [RandomState_uniform ss (nrows (frames s ! X)),
                                   Train_test_split (nrows (frames s ! X)) v 0 st]"
    and m1: "models s1 = models s"
    using resample_split_rejects[OF dr0, of y] rs by simp_all
  have "iteration env ex ?Xc y v st ss 0 ?s0 = (Inl e, s1)"
    using rs r1 by (simp add: iteration_def)
  then have "explain_loop env ex ?Xc y v st ss [0..<nat loop_its] [] None ?s0 = (Inl e, s1)"
    using up by simp
  then have "explain env ex X y loop_its v st ss s = (Inl e, s1)"
    using nc by (simp add: explain_def Let_def)
  with t1 m1 show "fst (explain env ex X y loop_its v st ss s) = Inl e"
    and "trace (snd (explain env ex X y loop_its v st ss s))
           = trace s @ [RandomState_uniform ss (nrows (frames s ! X)),
                        Train_test_split (nrows (frames s ! X)) v 0 st]"
    and "models (snd (explain env ex X y loop_its v st ss s)) = models s"
    by simp_all
qed

text \<open>
  Against C3 as it is stated (no random feature is generated and no split is made when
  the fraction is invalid):
  \<^verbatim>\<open>explain\<close> has no check of its own on \<^verbatim>\<open>val_size\<close>. With one iteration
  and the fraction \<open>3/2\<close>, the random feature is drawn and written into the copy of the
  frame and \<^verbatim>\<open>train_test_split\<close> is called, before the split refuses the
  fraction: the run has failed, but not before its first iteration began.
\<close>

theorem explain_invalid_fraction_counterexample:
  "\<not> (0 < (3 / 2 :: real) \<and> (3 / 2 :: real) < 1)
   \<and> fst (explain demo_env \<lparr>kind = Catboost, model = 0\<rparr> 0 demo_y 1 (3 / 2) None 0
          (demo_state CatBoostClassifier)) = Inl ValueError
   \<and> trace (snd (explain demo_env \<lparr>kind = Catboost, model = 0\<rparr> 0 demo_y 1 (3 / 2) None 0
          (demo_state CatBoostClassifier)))
       = [RandomState_uniform 0 3, Train_test_split 3 (3 / 2) 0 None]
   \<and> cols (frames (snd (explain demo_env \<lparr>kind = Catboost, model = 0\<rparr> 0 demo_y 1 (3 / 2) None 0
          (demo_state CatBoostClassifier))) ! 2)
       = [(''a'', [1, - 2, 3]), (''b'', [- 4, 5, - 6]), (''random_uniform_feature'', [0, 0, 0])]"
  by code_simp

text \<open>
  C3, as the code has it. With an iteration count that is not positive the call fails
  (on its assertion, or at the \<^verbatim>\<open>return\<close>, where \<^verbatim>\<open>X_train\<close> is
  unbound) and no iteration runs: nothing is drawn, no split is made, no model is fitted.
  The validation fraction is not checked by \<^verbatim>\<open>explain\<close>: with a positive count
  and no reserved column, the first iteration draws the random feature and hands the
  fraction to \<^verbatim>\<open>train_test_split\<close>; when the split refuses it, the call fails
  with the split's error after exactly that draw and that call of the split, and no
  model has been created or fitted.
\<close>

theorem explain_invalid_count_or_fraction:
  "(loop_its \<le> 0 \<longrightarrow>
      isl (fst (explain env ex X y loop_its val_size stratify random_seed_start s))
      \<and> trace (snd (explain env ex X y loop_its val_size stratify random_seed_start s)) = trace s
      \<and> models (snd (explain env ex X y loop_its val_size stratify random_seed_start s))
          = models s)
   \<and> (0 < loop_its \<and> random_col_name \<notin> set (columns (frames s ! X))
       \<and> rs_uniform env random_seed_start (nrows (frames s ! X)) = Inr u
       \<and> length u = nrows (frames s ! X)
       \<and> train_test_split env (nrows (frames s ! X)) val_size 0 stratify = Inl e \<longrightarrow>
      fst (explain env ex X y loop_its val_size stratify random_seed_start s) = Inl e
      \<and> trace (snd (explain env ex X y loop_its val_size stratify random_seed_start s))
          = trace s @ [RandomState_uniform random_seed_start (nrows (frames s ! X)),
                       Train_test_split (nrows (frames s ! X)) val_size 0 stratify]
      \<and> models (snd (explain env ex X y loop_its val_size stratify random_seed_start s))
          = models s)"
proof (intro conjI impI)
  assume "loop_its \<le> 0"
  note e = explain_no_iterations[OF this, of env ex X y val_size stratify random_seed_start s]
  show "isl (fst (explain env ex X y loop_its val_size stratify random_seed_start s))"
    by (simp add: e)
  show "trace (snd (explain env ex X y loop_its val_size stratify random_seed_start s)) = trace s"
    by (simp add: e)
  show "models (snd (explain env ex X y loop_its val_size stratify random_seed_start s))
          = models s"
    by (simp add: e)
next
  assume a: "0 < loop_its \<and> random_col_name \<notin> set (columns (frames s ! X))
       \<and> rs_uniform env random_seed_start (nrows (frames s ! X)) = Inr u
       \<and> length u = nrows (frames s ! X)
       \<and> train_test_split env (nrows (frames s ! X)) val_size 0 stratify = Inl e"
  then have h: "0 < loop_its" "random_col_name \<notin> set (columns (frames s ! X))"
    "rs_uniform env random_seed_start (nrows (frames s ! X)) = Inr u"
    "length u = nrows (frames s ! X)"
    "train_test_split env (nrows (frames s ! X)) val_size 0 stratify = Inl e"
    by simp_all
  show "fst (explain env ex X y loop_its val_size stratify random_seed_start s) = Inl e"
    by (rule explain_first_split_rejects(1)[OF h])
  show "trace (snd (explain env ex X y loop_its val_size stratify random_seed_start s))
          = trace s @ [RandomState_uniform random_seed_start (nrows (frames s ! X)),
                       Train_test_split (nrows (frames s ! X)) val_size 0 stratify]"
    by (rule explain_first_split_rejects(2)[OF h])
  show "models (snd (explain env ex X y loop_its val_size stratify random_seed_start s))
          = models s"
    by (rule explain_first_split_rejects(3)[OF h])
qed

theorem explain_invalid_count_or_fraction_witness:
  "fst (explain demo_env \<lparr>kind = Catboost, model = 0\<rparr> 0 demo_y 0 (3 / 10) None 0
          (demo_state CatBoostClassifier)) = Inl UnboundLocalError
   \<and> trace (snd (explain demo_env \<lparr>kind = Catboost, model = 0\<rparr> 0 demo_y 0 (3 / 10) None 0
          (demo_state CatBoostClassifier))) = []
   \<and> fst (explain demo_env \<lparr>kind = Catboost, model = 0\<rparr> 0 demo_y 4 (3 / 2) None 7
          (demo_state CatBoostClassifier)) = Inl ValueError
   \<and> trace (snd (explain demo_env \<lparr>kind = Catboost, model = 0\<rparr> 0 demo_y 4 (3 / 2) None 7
          (demo_state CatBoostClassifier)))
       = [RandomState_uniform 7 3, Train_test_split 3 (3 / 2) 0 None]"
proof -
  let ?ex = "\<lparr>kind = Catboost, model = 0\<rparr>"
  let ?s = "demo_state CatBoostClassifier"
  have a: "(0::int) \<le> 0" by simp
  have b: "(0::int) < 4 \<and> random_col_name \<notin> set (columns (frames ?s ! 0))
       \<and> rs_uniform demo_env 7 (nrows (frames ?s ! 0)) = Inr [7, 7, 7]
       \<and> length [7, 7, 7 :: int] = nrows (frames ?s ! 0)
       \<and> train_test_split demo_env (nrows (frames ?s ! 0)) (3 / 2) 0 None = Inl ValueError"
    by (simp add: demo_defs columns_def random_col_name_def numeral_3_eq_3)
  have u: "fst (explain demo_env ?ex 0 demo_y 0 (3 / 10) None 0 ?s) = Inl UnboundLocalError"
    by code_simp
  from a u explain_invalid_count_or_fraction[of 0 demo_env ?ex 0 demo_y "3 / 10" None 0 ?s]
  have p1: "trace (snd (explain demo_env ?ex 0 demo_y 0 (3 / 10) None 0 ?s)) = []"
    by (simp add: demo_state_def)
  from b explain_invalid_count_or_fraction[of 4 demo_env ?ex 0 demo_y "3 / 2" None 7 ?s
      "[7, 7, 7]" ValueError]
  have p2: "fst (explain demo_env ?ex 0 demo_y 4 (3 / 2) None 7 ?s) = Inl ValueError
    \<and> trace (snd (explain demo_env ?ex 0 demo_y 4 (3 / 2) None 7 ?s))
        = [RandomState_uniform 7 3, Train_test_split 3 (3 / 2) 0 None]"
    by (simp add: demo_defs)
  from u p1 p2 show ?thesis by simp
qed

section \<open>The seed of the split\<close>

text \<open>
  Whatever the libraries do: once the draw has succeeded, the loop body has called the
  generator with the seed \<open>i + random_seed_start\<close> and the split with
  \<open>random_state = i\<close>.
\<close>

lemma resample_calls:
  assumes "rs_uniform env (int i + ss) (nrows (frames s ! X)) = Inr u"
    and "length u = nrows (frames s ! X)"
  shows "trace (snd (resample env X y v st ss i s))
           = trace s @ [RandomState_uniform (int i + ss) (nrows (frames s ! X)),
                        Train_test_split (nrows (frames s ! X)) v (int i) st]"
  using assms
  by (auto simp: resample_def setitem_def log_event_def Let_def split: sum.splits prod.splits)

text \<open>
  C1. The generator of the random feature and \<^verbatim>\<open>_fit_get_shap\<close> get the seed
  \<open>i + random_seed_start\<close>; \<^verbatim>\<open>train_test_split\<close> gets \<open>random_state = i\<close>.
  Evaluated on three rows: the run with \<open>random_seed_start = 1\<close> draws with seed 1 and
  splits with seed 0 in its iteration 0, while iteration 1 of the run with
  \<open>random_seed_start = 0\<close> draws with seed 1 and splits with seed 1; the two splits put
  different rows into the validation set. So the random feature of the shifted run's
  iteration 0 is that of the original run's iteration 1, and the split is not.
\<close>

theorem explain_split_seed_is_iteration_index:
  "trace (snd (explain demo_env \<lparr>kind = Catboost, model = 0\<rparr> 0 demo_y 1 (3 / 10) None 1
          (demo_state CatBoostClassifier)))
     = [RandomState_uniform 1 3, Train_test_split 3 (3 / 10) 0 None, Fit_get_shap 1,
        Model_fit 2, Explainer_shap_values 2]
   \<and> drop 5 (trace (snd (explain demo_env \<lparr>kind = Catboost, model = 0\<rparr> 0 demo_y 2 (3 / 10)
          None 0 (demo_state CatBoostClassifier))))
     = [RandomState_uniform 1 3, Train_test_split 3 (3 / 10) 1 None, Fit_get_shap 1,
        Model_fit 3, Explainer_shap_values 3]
   \<and> train_test_split demo_env 3 (3 / 10) 0 None = Inr ([1, 2], [0])
   \<and> train_test_split demo_env 3 (3 / 10) 1 None = Inr ([0, 2], [1])"
  by code_simp

end
